theory Spec2Isabelle
  imports
    Complex_Main
    "HOL-Library.Char_ord"
    "HOL-Library.List_Lexorder"
    "HOL-Library.Product_Lexorder"
    "HOL-Library.Word"
begin

section \<open>Data model\<close>

text \<open>
  \<^verbatim>\<open>DashBoard.py\<close> works on one pandas DataFrame, read from \<^verbatim>\<open>AIDataset.csv\<close>.
  A row of that frame is a record with the thirteen columns the script reads.
  Every cell of a frame holds a value of its column's type; frames with missing
  cells are not covered.

  A cell of \<^verbatim>\<open>Job_Openings\<close> is an int64, a 64-bit word read as a signed number
  (\<open>sint\<close>); sums of such cells wrap around, as the sums of numpy do.  A cell of one
  of the three columns that are averaged is a finite number, given as the rational it
  stands for.  The result of a float64 computation is an \<open>f64\<close>: a finite value (the
  rational it stands for), an infinity, or NaN.  The two zeros of float64 are not told
  apart.
\<close>

datatype f64 = Finite64 rat | PosInf | NegInf | NaN

record job_row =
  Year :: int
  Job_Title :: string
  Industry :: string
  Salary_USD :: rat
  Growth_Rate :: rat
  Job_Openings :: "64 word"
  Gender_Diversity_Index :: rat
  Experience_Level :: string
  AI_Adoption_Level :: string
  Skill_Complexity :: string
  Location :: string
  Remote_Work :: string
  Company_Size :: string

type_synonym dataframe = "job_row list"

text \<open>The values of the three sidebar widgets: the slider's pair and the two
  multiselect lists.\<close>

record filter_state =
  year_range :: "int \<times> int"
  job_cats :: "string list"
  industries :: "string list"

text \<open>The exceptions of the script: \<^verbatim>\<open>int(nan)\<close> raises ValueError, and
  \<^verbatim>\<open>read_csv\<close> raises FileNotFoundError, or a parser error on a file it cannot parse.\<close>

datatype error = ValueError | FileNotFoundError | ParserError

section \<open>The pandas operations the script calls\<close>

text \<open>\<^verbatim>\<open>df['c']\<close>: the column as a Series, in row order.\<close>

definition column :: "('r \<Rightarrow> 'a) \<Rightarrow> 'r list \<Rightarrow> 'a list" where
  "column c df = map c df"

text \<open>\<^verbatim>\<open>Series.between(left, right)\<close>: both ends inclusive.\<close>

definition between :: "int list \<Rightarrow> int \<Rightarrow> int \<Rightarrow> bool list" where
  "between s left right = map (\<lambda>x. left \<le> x \<and> x \<le> right) s"

text \<open>\<^verbatim>\<open>Series.isin(values)\<close>.\<close>

definition isin :: "'a list \<Rightarrow> 'a list \<Rightarrow> bool list" where
  "isin s vals = map (\<lambda>x. x \<in> set vals) s"

text \<open>\<^verbatim>\<open>a & b\<close> on two boolean Series of one frame.\<close>

definition series_and :: "bool list \<Rightarrow> bool list \<Rightarrow> bool list" where
  "series_and a b = map (\<lambda>(x, y). x \<and> y) (zip a b)"

text \<open>\<^verbatim>\<open>df[mask]\<close>: the rows whose mask entry is True, in the order of the frame.\<close>

definition getitem_mask :: "'r list \<Rightarrow> bool list \<Rightarrow> 'r list" where
  "getitem_mask df m = map fst (filter snd (zip df m))"

section \<open>The filter (lines 51 to 56)\<close>

text \<open>The script's \<^verbatim>\<open>mask\<close> (the name \<open>mask\<close> is taken by the bit library).\<close>

definition mask_df :: "dataframe \<Rightarrow> filter_state \<Rightarrow> bool list" where
  "mask_df df fs =
     series_and
       (series_and
          (between (column Year df) (fst (year_range fs)) (snd (year_range fs)))
          (isin (column Job_Title df) (job_cats fs)))
       (isin (column Industry df) (industries fs))"

definition filtered_df :: "dataframe \<Rightarrow> filter_state \<Rightarrow> dataframe" where
  "filtered_df df fs = getitem_mask df (mask_df df fs)"

section \<open>The sidebar defaults (lines 29 to 48)\<close>

text \<open>\<^verbatim>\<open>Series.min()\<close> and \<^verbatim>\<open>Series.max()\<close>: NaN on an empty Series.\<close>

definition series_min :: "int list \<Rightarrow> int option" where
  "series_min s = (case s of [] \<Rightarrow> None | x # xs \<Rightarrow> Some (fold min xs x))"

definition series_max :: "int list \<Rightarrow> int option" where
  "series_max s = (case s of [] \<Rightarrow> None | x # xs \<Rightarrow> Some (fold max xs x))"

text \<open>\<^verbatim>\<open>int(x)\<close>: Python raises ValueError on NaN.\<close>

definition py_int :: "int option \<Rightarrow> error + int" where
  "py_int x = (case x of None \<Rightarrow> Inl ValueError | Some v \<Rightarrow> Inr v)"

text \<open>\<^verbatim>\<open>Series.unique()\<close>: the distinct values in order of first appearance.\<close>

definition unique :: "'a list \<Rightarrow> 'a list" where
  "unique s = rev (remdups (rev s))"

text \<open>
  What the three widgets return while the user has not touched them: the slider its
  \<^verbatim>\<open>value\<close> pair, each multiselect its \<^verbatim>\<open>default\<close> list.  The two
  \<^verbatim>\<open>int(...)\<close> calls come first, as in the script.
\<close>

definition default_filter_state :: "dataframe \<Rightarrow> error + filter_state" where
  "default_filter_state df =
     (case py_int (series_min (column Year df)) of
        Inl e \<Rightarrow> Inl e
      | Inr lo \<Rightarrow>
          (case py_int (series_max (column Year df)) of
             Inl e \<Rightarrow> Inl e
           | Inr hi \<Rightarrow>
               Inr \<lparr>year_range = (lo, hi),
                    job_cats = unique (column Job_Title df),
                    industries = unique (column Industry df)\<rparr>))"

section \<open>Aggregation\<close>

text \<open>
  The float64 arithmetic of the two mean computations is library code that the script
  does not fix: \<^verbatim>\<open>Series.mean()\<close> lets numpy add the array up (in blocks, or left
  to right when the optional bottleneck package is there) and divides by the count;
  \<^verbatim>\<open>groupby(...).mean()\<close> adds each group up with a compensated sum of its own.
  Both are parameters of the model: \<open>series_mean lib xs\<close> and \<open>group_mean lib xs\<close>
  are the float64 results of the two on the non-empty array \<open>xs\<close>.
\<close>

record float_lib =
  series_mean :: "rat list \<Rightarrow> f64"
  group_mean :: "rat list \<Rightarrow> f64"

text \<open>
  A mean of pandas, for \<open>m\<close> one of the two float64 computations: pandas itself
  returns NaN when there is nothing to average
  (\<^verbatim>\<open>the_sum / count if count > 0 else np.nan\<close>), without any exception.
\<close>

definition mean :: "(rat list \<Rightarrow> f64) \<Rightarrow> rat list \<Rightarrow> f64" where
  "mean m s = (if s = [] then NaN else m s)"

text \<open>\<^verbatim>\<open>Series.sum()\<close> and the sum of a group on an int64 column: int64 addition, which
  wraps around; 0 on an empty Series.\<close>

definition sum_s :: "64 word list \<Rightarrow> 64 word" where
  "sum_s s = sum_list s"

text \<open>
  \<^verbatim>\<open>DataFrame.groupby(keys)\<close> with its defaults (\<^verbatim>\<open>sort=True\<close>, columns of
  plain values): one group for each key tuple that occurs, the groups in ascending
  order of the key tuple, each group holding its rows in the frame's order.
\<close>

definition group_keys :: "('r \<Rightarrow> 'k::linorder) \<Rightarrow> 'r list \<Rightarrow> 'k list" where
  "group_keys key df = sort (remdups (map key df))"

definition groupby :: "('r \<Rightarrow> 'k::linorder) \<Rightarrow> 'r list \<Rightarrow> ('k \<times> 'r list) list" where
  "groupby key df = map (\<lambda>k. (k, filter (\<lambda>r. key r = k) df)) (group_keys key df)"

text \<open>\<^verbatim>\<open>groupby(keys)[c].mean().reset_index()\<close>, \<^verbatim>\<open>groupby(keys)[c].sum().reset_index()\<close>
  and \<^verbatim>\<open>groupby(keys).size().reset_index(name='count')\<close>: one table row for each group.\<close>

definition groupby_mean ::
  "float_lib \<Rightarrow> ('r \<Rightarrow> 'k::linorder) \<Rightarrow> ('r \<Rightarrow> rat) \<Rightarrow> 'r list \<Rightarrow> ('k \<times> f64) list" where
  "groupby_mean lib key c df =
     map (\<lambda>(k, g). (k, mean (group_mean lib) (column c g))) (groupby key df)"

definition groupby_sum ::
  "('r \<Rightarrow> 'k::linorder) \<Rightarrow> ('r \<Rightarrow> 64 word) \<Rightarrow> 'r list \<Rightarrow> ('k \<times> 64 word) list" where
  "groupby_sum key c df = map (\<lambda>(k, g). (k, sum_s (column c g))) (groupby key df)"

definition groupby_size :: "('r \<Rightarrow> 'k::linorder) \<Rightarrow> 'r list \<Rightarrow> ('k \<times> nat) list" where
  "groupby_size key df = map (\<lambda>(k, g). (k, length g)) (groupby key df)"

section \<open>The KPIs (lines 59 to 75) and the chart tables (lines 83 to 149)\<close>

text \<open>Each definition is the right-hand side of the script's assignment of that name,
  as a function of the script's \<^verbatim>\<open>filtered_df\<close>.\<close>

definition avg_salary :: "float_lib \<Rightarrow> dataframe \<Rightarrow> f64" where
  "avg_salary lib fdf = mean (series_mean lib) (column Salary_USD fdf)"

definition avg_growth :: "float_lib \<Rightarrow> dataframe \<Rightarrow> f64" where
  "avg_growth lib fdf = mean (series_mean lib) (column Growth_Rate fdf)"

definition total_openings :: "dataframe \<Rightarrow> 64 word" where
  "total_openings fdf = sum_s (column Job_Openings fdf)"

definition avg_diversity :: "float_lib \<Rightarrow> dataframe \<Rightarrow> f64" where
  "avg_diversity lib fdf = mean (series_mean lib) (column Gender_Diversity_Index fdf)"

definition salary_trends :: "float_lib \<Rightarrow> dataframe \<Rightarrow> ((int \<times> string) \<times> f64) list" where
  "salary_trends lib fdf = groupby_mean lib (\<lambda>r. (Year r, Job_Title r)) Salary_USD fdf"

definition salary_exp :: "float_lib \<Rightarrow> dataframe \<Rightarrow> ((string \<times> string) \<times> f64) list" where
  "salary_exp lib fdf =
     groupby_mean lib (\<lambda>r. (Experience_Level r, Job_Title r)) Salary_USD fdf"

definition ai_adoption :: "dataframe \<Rightarrow> ((string \<times> string) \<times> nat) list" where
  "ai_adoption fdf = groupby_size (\<lambda>r. (Industry r, AI_Adoption_Level r)) fdf"

definition skill_complex :: "dataframe \<Rightarrow> ((string \<times> string) \<times> nat) list" where
  "skill_complex fdf = groupby_size (\<lambda>r. (Job_Title r, Skill_Complexity r)) fdf"

definition location_jobs :: "dataframe \<Rightarrow> ((string \<times> string) \<times> 64 word) list" where
  "location_jobs fdf = groupby_sum (\<lambda>r. (Location r, Job_Title r)) Job_Openings fdf"

definition remote_dist :: "dataframe \<Rightarrow> ((string \<times> string) \<times> nat) list" where
  "remote_dist fdf = groupby_size (\<lambda>r. (Job_Title r, Remote_Work r)) fdf"

definition growth_industry :: "float_lib \<Rightarrow> dataframe \<Rightarrow> (string \<times> f64) list" where
  "growth_industry lib fdf = groupby_mean lib Industry Growth_Rate fdf"

definition company_dist :: "dataframe \<Rightarrow> ((string \<times> string) \<times> nat) list" where
  "company_dist fdf = groupby_size (\<lambda>r. (Company_Size r, Job_Title r)) fdf"

text \<open>Everything one pass of lines 51 to 149 hands to the page.\<close>

record dashboard =
  shown_df :: dataframe
  kpi_avg_salary :: f64
  kpi_avg_growth :: f64
  kpi_total_openings :: "64 word"
  kpi_avg_diversity :: f64
  tbl_salary_trends :: "((int \<times> string) \<times> f64) list"
  tbl_salary_exp :: "((string \<times> string) \<times> f64) list"
  tbl_ai_adoption :: "((string \<times> string) \<times> nat) list"
  tbl_skill_complex :: "((string \<times> string) \<times> nat) list"
  tbl_location_jobs :: "((string \<times> string) \<times> 64 word) list"
  tbl_remote_dist :: "((string \<times> string) \<times> nat) list"
  tbl_growth_industry :: "(string \<times> f64) list"
  tbl_company_dist :: "((string \<times> string) \<times> nat) list"

text \<open>Lines 51 to 149 in the order of the script: the filter once, then every KPI and
  every table from that one \<^verbatim>\<open>filtered_df\<close>.\<close>

definition main_body :: "float_lib \<Rightarrow> dataframe \<Rightarrow> filter_state \<Rightarrow> dashboard" where
  "main_body lib df fs =
     (let fdf = filtered_df df fs in
      \<lparr>shown_df = fdf,
       kpi_avg_salary = avg_salary lib fdf,
       kpi_avg_growth = avg_growth lib fdf,
       kpi_total_openings = total_openings fdf,
       kpi_avg_diversity = avg_diversity lib fdf,
       tbl_salary_trends = salary_trends lib fdf,
       tbl_salary_exp = salary_exp lib fdf,
       tbl_ai_adoption = ai_adoption fdf,
       tbl_skill_complex = skill_complex fdf,
       tbl_location_jobs = location_jobs fdf,
       tbl_remote_dist = remote_dist fdf,
       tbl_growth_industry = growth_industry lib fdf,
       tbl_company_dist = company_dist fdf\<rparr>)"

section \<open>The loader (lines 12 to 15) and the script run (lines 17 to 154)\<close>

text \<open>
  The process as the loader sees it, for any type \<open>'f\<close> of frames: what
  \<^verbatim>\<open>pd.read_csv('AIDataset.csv')\<close> finds (an exception or the frame), the entry
  \<^verbatim>\<open>st.cache_data\<close> keeps for \<^verbatim>\<open>load_data\<close>, and the number of times
  \<^verbatim>\<open>read_csv\<close> has gone to the file, whether it could read it or not.
\<close>

record 'f world =
  source :: "error + 'f"
  cache :: "'f option"
  reads :: nat

definition read_csv :: "'f world \<Rightarrow> (error + 'f) \<times> 'f world" where
  "read_csv w = (source w, w\<lparr>reads := Suc (reads w)\<rparr>)"

text \<open>
  \<^verbatim>\<open>@st.cache_data def load_data()\<close>: a cached entry is returned without running
  the body; otherwise the body runs, and its result is stored unless it raised.
\<close>

definition load_data :: "'f world \<Rightarrow> (error + 'f) \<times> 'f world" where
  "load_data w =
     (case cache w of
        Some f \<Rightarrow> (Inr f, w)
      | None \<Rightarrow>
          (case read_csv w of
             (Inl e, w') \<Rightarrow> (Inl e, w')
           | (Inr f, w') \<Rightarrow> (Inr f, w'\<lparr>cache := Some f\<rparr>)))"

text \<open>\<open>n\<close> calls of \<^verbatim>\<open>load_data()\<close> one after the other in one process.\<close>

fun loads :: "nat \<Rightarrow> 'f world \<Rightarrow> (error + 'f) list \<times> 'f world" where
  "loads 0 w = ([], w)"
| "loads (Suc n) w =
     (case load_data w of
        (r, w') \<Rightarrow> (case loads n w' of (rs, w'') \<Rightarrow> (r # rs, w'')))"

text \<open>
  A frame as \<^verbatim>\<open>read_csv\<close> hands it over, before any column is looked at: the
  header and the lines.  \<open>required_columns\<close> are the thirteen names the script reads.
\<close>

record csv_frame =
  columns :: "string list"
  body :: "string list list"

definition required_columns :: "string list" where
  "required_columns =
     [''Year'', ''Job_Title'', ''Industry'', ''Salary_USD'', ''Growth_Rate'',
      ''Job_Openings'', ''Gender_Diversity_Index'', ''Experience_Level'',
      ''AI_Adoption_Level'', ''Skill_Complexity'', ''Location'', ''Remote_Work'',
      ''Company_Size'']"

text \<open>
  One run of \<^verbatim>\<open>main()\<close>.  \<open>ui\<close> is what the user has set in the sidebar:
  \<open>None\<close> while the widgets are untouched (they return their defaults), \<open>Some fs\<close>
  once the user has chosen \<open>fs\<close>.  The widgets are built on every run, so the two
  \<^verbatim>\<open>int(...)\<close> calls of the slider can raise on every run.
\<close>

definition main ::
  "float_lib \<Rightarrow> dataframe world \<Rightarrow> filter_state option \<Rightarrow>
     (error + dashboard) \<times> dataframe world" where
  "main lib w ui =
     (case load_data w of
        (Inl e, w') \<Rightarrow> (Inl e, w')
      | (Inr df, w') \<Rightarrow>
          (case default_filter_state df of
             Inl e \<Rightarrow> (Inl e, w')
           | Inr d \<Rightarrow>
               (Inr (main_body lib df (case ui of None \<Rightarrow> d | Some fs \<Rightarrow> fs)), w')))"

section \<open>The aggregates in the words of the specification\<close>





section \<open>Float64 arithmetic, summed left to right\<close>

text \<open>
  One \<open>float_lib\<close>, for the examples: IEEE 754 binary64 with round to nearest, ties to
  even, the array added up from left to right and the sum divided by the count.  On an
  array whose partial sums are all float64 values, as those of the examples are, every
  order of adding gives the same sum, so this is what pandas returns there.
\<close>

function bit_length :: "int \<Rightarrow> int" where
  "bit_length n = (if n \<le> 0 then 0 else 1 + bit_length (n div 2))"
  by pat_completeness auto
termination
  by (relation "measure nat") auto

definition pow2 :: "int \<Rightarrow> rat" where
  "pow2 e = (if 0 \<le> e then 2 ^ nat e else 1 / 2 ^ nat (- e))"

text \<open>The integer \<open>e\<close> with \<open>2 ^ e \<le> a < 2 ^ (e + 1)\<close>, for \<open>a > 0\<close>.\<close>

definition ilog2 :: "rat \<Rightarrow> int" where
  "ilog2 a =
     (let (p, q) = quotient_of a;
          d = bit_length p - bit_length q
      in if pow2 d \<le> a then d else d - 1)"

definition round_half_even :: "rat \<Rightarrow> int" where
  "round_half_even q =
     (let f = \<lfloor>q\<rfloor>; r = q - of_int f
      in if r < 1 / 2 then f else if 1 / 2 < r then f + 1 else if even f then f else f + 1)"

text \<open>
  The float64 nearest to \<open>x\<close>: 53 significant bits, least exponent \<open>- 1022\<close> (below
  it the spacing stays \<open>2 ^ (- 1074)\<close>), an infinity from \<open>2 ^ 1024 - 2 ^ 970\<close> on.
\<close>

definition rn64 :: "rat \<Rightarrow> f64" where
  "rn64 x =
     (if x = 0 then Finite64 0
      else
        (let a = \<bar>x\<bar>;
             e = max (ilog2 a) (- 1022);
             u = pow2 (e - 52);
             n = round_half_even (a / u)
         in if 1023 < e \<or> (e = 1023 \<and> n = 2 ^ 53)
            then (if 0 < x then PosInf else NegInf)
            else Finite64 (if 0 < x then of_int n * u else - (of_int n * u))))"

definition f64_add :: "f64 \<Rightarrow> f64 \<Rightarrow> f64" where
  "f64_add v w =
     (case (v, w) of
        (Finite64 a, Finite64 b) \<Rightarrow> rn64 (a + b)
      | (NaN, _) \<Rightarrow> NaN
      | (_, NaN) \<Rightarrow> NaN
      | (PosInf, NegInf) \<Rightarrow> NaN
      | (NegInf, PosInf) \<Rightarrow> NaN
      | (PosInf, _) \<Rightarrow> PosInf
      | (_, PosInf) \<Rightarrow> PosInf
      | (NegInf, _) \<Rightarrow> NegInf
      | (_, NegInf) \<Rightarrow> NegInf)"

definition f64_div_nat :: "f64 \<Rightarrow> nat \<Rightarrow> f64" where
  "f64_div_nat v n = (case v of Finite64 a \<Rightarrow> rn64 (a / of_nat n) | _ \<Rightarrow> v)"

definition seq_mean :: "rat list \<Rightarrow> f64" where
  "seq_mean xs =
     f64_div_nat (fold (\<lambda>x acc. f64_add acc (rn64 x)) xs (Finite64 0)) (length xs)"

definition ieee_lib :: float_lib where
  "ieee_lib = \<lparr>series_mean = seq_mean, group_mean = seq_mean\<rparr>"

section \<open>Example data\<close>

definition row1 :: job_row where
  "row1 = \<lparr>Year = 2020, Job_Title = ''A'', Industry = ''X'', Salary_USD = 100,
     Growth_Rate = 2, Job_Openings = 5, Gender_Diversity_Index = 1 / 2,
     Experience_Level = ''Senior'', AI_Adoption_Level = ''High'',
     Skill_Complexity = ''Low'', Location = ''Paris'', Remote_Work = ''Yes'',
     Company_Size = ''Small''\<rparr>"

definition row2 :: job_row where
  "row2 = \<lparr>Year = 2021, Job_Title = ''B'', Industry = ''Y'', Salary_USD = 200,
     Growth_Rate = 4, Job_Openings = 3, Gender_Diversity_Index = 1 / 4,
     Experience_Level = ''Junior'', AI_Adoption_Level = ''Low'',
     Skill_Complexity = ''High'', Location = ''Oslo'', Remote_Work = ''No'',
     Company_Size = ''Large''\<rparr>"



definition fs1 :: filter_state where
  "fs1 = \<lparr>year_range = (2020, 2020), job_cats = [''A''], industries = [''X'']\<rparr>"

definition fs_default :: filter_state where
  "fs_default =
     \<lparr>year_range = (2020, 2021), job_cats = [''B'', ''A''], industries = [''Y'', ''X'']\<rparr>"

definition fs_none :: filter_state where
  "fs_none = \<lparr>year_range = (2020, 2021), job_cats = [], industries = [''X'', ''Y'']\<rparr>"

text \<open>A file whose header has one column only, and a process that has not loaded yet.\<close>

definition bad_frame :: csv_frame where
  "bad_frame = \<lparr>columns = [''Job_Title''], body = [[''A''], [''B'']]\<rparr>"

definition w_bad :: "csv_frame world" where
  "w_bad = \<lparr>source = Inr bad_frame, cache = None, reads = 0\<rparr>"

text \<open>A process whose file cannot be parsed.\<close>

definition w_broken :: "csv_frame world" where
  "w_broken = \<lparr>source = Inl ParserError, cache = None, reads = 0\<rparr>"

definition w_ok :: "dataframe world" where
  "w_ok = \<lparr>source = Inr [row2, row1], cache = None, reads = 0\<rparr>"

text \<open>The same process after its first run.\<close>

definition w_loaded :: "dataframe world" where
  "w_loaded = \<lparr>source = Inr [row2, row1], cache = Some [row2, row1], reads = 1\<rparr>"

section \<open>The filter is the conjunction of the three conditions\<close>

lemma load_data_cached: "cache w = Some f \<Longrightarrow> load_data w = (Inr f, w)"
  by (simp add: load_data_def)

lemma main_cached: "cache w = Some df \<Longrightarrow> snd (main lib w ui) = w"
  by (simp add: main_def load_data_cached split: sum.splits)

lemma getitem_mask_map: "getitem_mask df (map P df) = filter P df"
  by (induction df) (simp_all add: getitem_mask_def)

lemma mask_eq:
  "mask_df df fs =
     map (\<lambda>r. (fst (year_range fs) \<le> Year r \<and> Year r \<le> snd (year_range fs))
              \<and> Job_Title r \<in> set (job_cats fs)
              \<and> Industry r \<in> set (industries fs)) df"
  by (induction df)
     (simp_all add: mask_df_def series_and_def between_def isin_def column_def)

lemma filtered_df_filter:
  "filtered_df df fs =
     filter (\<lambda>r. (fst (year_range fs) \<le> Year r \<and> Year r \<le> snd (year_range fs))
                 \<and> Job_Title r \<in> set (job_cats fs)
                 \<and> Industry r \<in> set (industries fs)) df"
  unfolding filtered_df_def mask_eq by (rule getitem_mask_map)

text \<open>
  Claim C1.  For every frame and every widget state, the filtered frame holds exactly the
  rows of the frame whose Year lies in the closed slider range, whose Job_Title is
  among the selected job categories and whose Industry is among the selected
  industries, all three at once; the rows are kept in the frame's order.  The rows
  of the frame left out are exactly those that break one of the three conditions.
  The filter returns a new frame and writes nothing: a run of the script on a loaded
  frame leaves the process, and so the loaded frame, as it was.
\<close>

theorem filtered_df_exact:
  "filtered_df df fs =
     filter (\<lambda>r. fst (year_range fs) \<le> Year r \<and> Year r \<le> snd (year_range fs)
                 \<and> Job_Title r \<in> set (job_cats fs)
                 \<and> Industry r \<in> set (industries fs)) df
   \<and> set (filtered_df df fs) =
       {r \<in> set df. fst (year_range fs) \<le> Year r \<and> Year r \<le> snd (year_range fs)
                 \<and> Job_Title r \<in> set (job_cats fs)
                 \<and> Industry r \<in> set (industries fs)}
   \<and> set df - set (filtered_df df fs) =
       {r \<in> set df. \<not> (fst (year_range fs) \<le> Year r \<and> Year r \<le> snd (year_range fs)
                 \<and> Job_Title r \<in> set (job_cats fs)
                 \<and> Industry r \<in> set (industries fs))}
   \<and> (cache w = Some df \<longrightarrow> snd (main lib w ui) = w \<and> cache (snd (main lib w ui)) = Some df)"
  unfolding filtered_df_filter by (auto simp: main_cached)

theorem filtered_df_exact_witness:
  "filtered_df [row2, row1] fs1 = [row1]
   \<and> set [row2, row1] - set (filtered_df [row2, row1] fs1) = {row2}
   \<and> cache w_loaded = Some [row2, row1]
   \<and> snd (main ieee_lib w_loaded (Some fs1)) = w_loaded"
proof -
  have c: "cache w_loaded = Some [row2, row1]"
    by (simp add: w_loaded_def)
  have f: "filter (\<lambda>r. fst (year_range fs1) \<le> Year r \<and> Year r \<le> snd (year_range fs1)
                 \<and> Job_Title r \<in> set (job_cats fs1)
                 \<and> Industry r \<in> set (industries fs1)) [row2, row1] = [row1]"
    by (simp add: row1_def row2_def fs1_def)
  have d: "row1 \<noteq> row2"
    by (simp add: row1_def row2_def)
  show ?thesis
    using filtered_df_exact [where df = "[row2, row1]" and fs = fs1 and w = w_loaded
        and ui = "Some fs1" and lib = ieee_lib] c d
    unfolding f by auto
qed

section \<open>An empty selection\<close>


lemma groupby_mean_alt:
  "groupby_mean lib key c df =
     map (\<lambda>k. (k, mean (group_mean lib) (map c (filter (\<lambda>r. key r = k) df))))
       (group_keys key df)"
  by (simp add: groupby_mean_def groupby_def column_def)

lemma groupby_sum_alt:
  "groupby_sum key c df =
     map (\<lambda>k. (k, sum_list (map c (filter (\<lambda>r. key r = k) df)))) (group_keys key df)"
  by (simp add: groupby_sum_def groupby_def column_def sum_s_def)

lemma groupby_size_alt:
  "groupby_size key df =
     map (\<lambda>k. (k, length (filter (\<lambda>r. key r = k) df))) (group_keys key df)"
  by (simp add: groupby_size_def groupby_def)

lemmas main_body_fields =
  main_body_def Let_def avg_salary_def avg_growth_def total_openings_def avg_diversity_def
  salary_trends_def salary_exp_def ai_adoption_def skill_complex_def location_jobs_def
  remote_dist_def growth_industry_def company_dist_def

lemma groupby_mean_Nil: "groupby_mean lib key c [] = []"
  by (simp add: groupby_mean_alt group_keys_def)

lemma groupby_sum_Nil: "groupby_sum key c [] = []"
  by (simp add: groupby_sum_alt group_keys_def)

lemma groupby_size_Nil: "groupby_size key [] = []"
  by (simp add: groupby_size_alt group_keys_def)

text \<open>
  Claim C2.  When no job category is selected the filtered frame is empty.  On an
  empty filtered frame the sum KPI (total job openings) is 0 and the row count is 0;
  the three mean KPIs are the undefined value of \<^verbatim>\<open>Series.mean()\<close> (NaN),
  which is not the number 0; and every one of the eight tables is the empty
  table, so the counts and sums in it add up to 0.  Lines 51 to 149 have no raising
  branch: \<open>main_body\<close> returns a dashboard for every frame and every widget state.
\<close>

theorem empty_selection:
  "(job_cats fs = [] \<longrightarrow> filtered_df df fs = [])
   \<and> (filtered_df df fs = [] \<longrightarrow>
        kpi_total_openings (main_body lib df fs) = 0
      \<and> kpi_avg_salary (main_body lib df fs) = NaN
      \<and> kpi_avg_growth (main_body lib df fs) = NaN
      \<and> kpi_avg_diversity (main_body lib df fs) = NaN
      \<and> kpi_avg_salary (main_body lib df fs) \<noteq> Finite64 0
      \<and> kpi_avg_growth (main_body lib df fs) \<noteq> Finite64 0
      \<and> kpi_avg_diversity (main_body lib df fs) \<noteq> Finite64 0
      \<and> length (shown_df (main_body lib df fs)) = 0
      \<and> tbl_salary_trends (main_body lib df fs) = []
      \<and> tbl_salary_exp (main_body lib df fs) = []
      \<and> tbl_ai_adoption (main_body lib df fs) = []
      \<and> tbl_skill_complex (main_body lib df fs) = []
      \<and> tbl_location_jobs (main_body lib df fs) = []
      \<and> tbl_remote_dist (main_body lib df fs) = []
      \<and> tbl_growth_industry (main_body lib df fs) = []
      \<and> tbl_company_dist (main_body lib df fs) = []
      \<and> sum_list (map snd (tbl_ai_adoption (main_body lib df fs))) = 0
      \<and> sum_list (map snd (tbl_skill_complex (main_body lib df fs))) = 0
      \<and> sum_list (map snd (tbl_location_jobs (main_body lib df fs))) = 0
      \<and> sum_list (map snd (tbl_remote_dist (main_body lib df fs))) = 0
      \<and> sum_list (map snd (tbl_company_dist (main_body lib df fs))) = 0)"
proof (intro conjI impI)
  assume "job_cats fs = []"
  then show "filtered_df df fs = []"
    by (simp add: filtered_df_filter)
qed (simp_all add: main_body_fields mean_def sum_s_def column_def
       groupby_mean_Nil groupby_sum_Nil groupby_size_Nil)

theorem empty_selection_witness:
  "job_cats fs_none = []
   \<and> filtered_df [row1, row2] fs_none = []
   \<and> kpi_total_openings (main_body ieee_lib [row1, row2] fs_none) = 0
   \<and> kpi_avg_salary (main_body ieee_lib [row1, row2] fs_none) = NaN
   \<and> kpi_avg_growth (main_body ieee_lib [row1, row2] fs_none) = NaN
   \<and> kpi_avg_diversity (main_body ieee_lib [row1, row2] fs_none) = NaN
   \<and> tbl_ai_adoption (main_body ieee_lib [row1, row2] fs_none) = []
   \<and> tbl_location_jobs (main_body ieee_lib [row1, row2] fs_none) = []"
proof -
  have h: "job_cats fs_none = []"
    by (simp add: fs_none_def)
  have e: "filtered_df [row1, row2] fs_none = []"
    using empty_selection [where fs = fs_none and df = "[row1, row2]" and lib = ieee_lib] h by blast
  show ?thesis
    using empty_selection [where fs = fs_none and df = "[row1, row2]" and lib = ieee_lib] h e by blast
qed

section \<open>The loader\<close>

lemma load_data_fresh:
  "cache w = None \<Longrightarrow>
     load_data w =
       (case source w of
          Inl e \<Rightarrow> (Inl e, w\<lparr>reads := Suc (reads w)\<rparr>)
        | Inr f \<Rightarrow> (Inr f, w\<lparr>reads := Suc (reads w), cache := Some f\<rparr>))"
  by (simp add: load_data_def read_csv_def split: sum.splits)

lemma loads_cached: "cache w = Some f \<Longrightarrow> loads n w = (replicate n (Inr f), w)"
  by (induction n) (simp_all add: load_data_cached)

lemma loads_unreadable:
  "cache w = None \<Longrightarrow> source w = Inl e \<Longrightarrow>
     loads n w = (replicate n (Inl e), w\<lparr>reads := reads w + n\<rparr>)"
proof (induction n arbitrary: w)
  case 0
  then show ?case by simp
next
  case (Suc n)
  have l: "load_data w = (Inl e, w\<lparr>reads := Suc (reads w)\<rparr>)"
    using Suc.prems by (simp add: load_data_fresh)
  have "loads n (w\<lparr>reads := Suc (reads w)\<rparr>) =
      (replicate n (Inl e), w\<lparr>reads := Suc (reads w), reads := Suc (reads w) + n\<rparr>)"
    using Suc.IH [of "w\<lparr>reads := Suc (reads w)\<rparr>"] Suc.prems by simp
  with l show ?case by simp
qed

lemma loads_readable:
  assumes "cache w = None" and "source w = Inr f"
  shows "loads (Suc n) w =
           (replicate (Suc n) (Inr f), w\<lparr>reads := Suc (reads w), cache := Some f\<rparr>)"
proof -
  have "load_data w = (Inr f, w\<lparr>reads := Suc (reads w), cache := Some f\<rparr>)"
    using assms by (simp add: load_data_fresh)
  moreover have "loads n (w\<lparr>reads := Suc (reads w), cache := Some f\<rparr>) =
      (replicate n (Inr f), w\<lparr>reads := Suc (reads w), cache := Some f\<rparr>)"
    by (rule loads_cached) simp
  ultimately show ?thesis by simp
qed

text \<open>
  Claim C3, as the script has it.  In a process that has not loaded yet, every call of
  \<^verbatim>\<open>load_data()\<close> returns what \<^verbatim>\<open>read_csv\<close> finds in the file.  When the file can
  be read, the first call reads it and caches the frame, and every later call returns
  that same frame without going to the file again: however many calls, the file is
  read once.  When the file cannot be read, every call fails with the error of
  \<^verbatim>\<open>read_csv\<close>; a failure is not cached, so each of the \<open>n\<close> calls goes to the file
  again.  The loader does not look at the header: a frame is returned as it was read,
  whatever columns it has.
\<close>

theorem load_data_once:
  assumes "cache w = None" and "loads n w = (rs, w')"
  shows "rs = replicate n (source w)
       \<and> (\<forall>f. source w = Inr f \<longrightarrow>
              reads w' \<le> Suc (reads w)
            \<and> (0 < n \<longrightarrow> reads w' = Suc (reads w) \<and> cache w' = Some f))
       \<and> (\<forall>e. source w = Inl e \<longrightarrow> reads w' = reads w + n \<and> cache w' = None)"
proof (cases "source w")
  case (Inl e)
  with assms show ?thesis
    by (auto simp: loads_unreadable)
next
  case (Inr f)
  show ?thesis
  proof (cases n)
    case 0
    with assms show ?thesis by simp
  next
    case (Suc m)
    with assms Inr show ?thesis
      by (auto simp: loads_readable simp del: loads.simps replicate.simps)
  qed
qed

theorem load_data_once_witness:
  "cache w_bad = None
   \<and> fst (loads 3 w_bad) = [Inr bad_frame, Inr bad_frame, Inr bad_frame]
   \<and> reads (snd (loads 3 w_bad)) = 1
   \<and> cache (snd (loads 3 w_bad)) = Some bad_frame
   \<and> cache w_broken = None
   \<and> fst (loads 2 w_broken) = [Inl ParserError, Inl ParserError]
   \<and> reads (snd (loads 2 w_broken)) = 2"
proof -
  have c: "cache w_bad = None" and c': "cache w_broken = None"
    by (simp_all add: w_bad_def w_broken_def)
  have s: "source w_bad = Inr bad_frame" and r: "reads w_bad = 0"
    and s': "source w_broken = Inl ParserError" and r': "reads w_broken = 0"
    by (simp_all add: w_bad_def w_broken_def)
  have p: "loads 3 w_bad = (fst (loads 3 w_bad), snd (loads 3 w_bad))"
    and p': "loads 2 w_broken = (fst (loads 2 w_broken), snd (loads 2 w_broken))"
    by simp_all
  show ?thesis
    using load_data_once [OF c p] load_data_once [OF c' p'] c c' s s' r r'
    by (simp add: numeral_3_eq_3 numeral_2_eq_2)
qed

text \<open>
  Claim C3 as stated fails twice.  A file whose header lacks twelve of the thirteen
  required columns is loaded without any error.  And a file that cannot be parsed is
  gone to again by every call: two calls, two reads.
\<close>

theorem load_data_missing_column_counterexample:
  "source w_bad = Inr bad_frame
   \<and> \<not> set required_columns \<subseteq> set (columns bad_frame)
   \<and> fst (load_data w_bad) = Inr bad_frame
   \<and> \<not> isl (fst (load_data w_bad))
   \<and> reads w_broken = 0
   \<and> reads (snd (loads 2 w_broken)) = 2"
  by (simp add: w_bad_def w_broken_def bad_frame_def required_columns_def load_data_def
        read_csv_def numeral_2_eq_2)

section \<open>Order of the grouping keys and repeated runs\<close>

lemma group_keys_sorted_list: "group_keys key df = sorted_list_of_set (key ` set df)"
  by (simp add: group_keys_def flip: sorted_list_of_set_sort_remdups)

lemma set_group_keys: "set (group_keys key df) = key ` set df"
  by (simp add: group_keys_def)


lemma keys_groupby_mean: "map fst (groupby_mean lib key c df) = group_keys key df"
  by (simp add: groupby_mean_alt comp_def)

lemma keys_groupby_sum: "map fst (groupby_sum key c df) = group_keys key df"
  by (simp add: groupby_sum_alt comp_def)

lemma keys_groupby_size: "map fst (groupby_size key df) = group_keys key df"
  by (simp add: groupby_size_alt comp_def)

lemma main_twice: "fst (main lib (snd (main lib w ui)) ui) = fst (main lib w ui)"
proof (cases "cache w")
  case (Some f)
  then show ?thesis
    by (simp add: main_def load_data_cached split: sum.splits)
next
  case None
  show ?thesis
  proof (cases "source w")
    case (Inl e)
    with None show ?thesis
      by (simp add: main_def load_data_fresh)
  next
    case (Inr f)
    with None show ?thesis
      by (simp add: main_def load_data_fresh load_data_cached split: sum.splits)
  qed
qed

text \<open>
  Claim C4.  A second run of the script in the same process, with the same widget
  state, gives the same result as the first (the second run takes the frame from the
  cache).  In each of the eight tables the keys are listed in ascending order without
  repetition: the list of keys is the sorted list of the set of key tuples that occur
  in the filtered frame, so it depends on the key values only.
\<close>

theorem recomputation_deterministic:
  "fst (main lib (snd (main lib w ui)) ui) = fst (main lib w ui)
   \<and> map fst (tbl_salary_trends (main_body lib df fs)) =
       sorted_list_of_set ((\<lambda>r. (Year r, Job_Title r)) ` set (filtered_df df fs))
   \<and> map fst (tbl_salary_exp (main_body lib df fs)) =
       sorted_list_of_set ((\<lambda>r. (Experience_Level r, Job_Title r)) ` set (filtered_df df fs))
   \<and> map fst (tbl_ai_adoption (main_body lib df fs)) =
       sorted_list_of_set ((\<lambda>r. (Industry r, AI_Adoption_Level r)) ` set (filtered_df df fs))
   \<and> map fst (tbl_skill_complex (main_body lib df fs)) =
       sorted_list_of_set ((\<lambda>r. (Job_Title r, Skill_Complexity r)) ` set (filtered_df df fs))
   \<and> map fst (tbl_location_jobs (main_body lib df fs)) =
       sorted_list_of_set ((\<lambda>r. (Location r, Job_Title r)) ` set (filtered_df df fs))
   \<and> map fst (tbl_remote_dist (main_body lib df fs)) =
       sorted_list_of_set ((\<lambda>r. (Job_Title r, Remote_Work r)) ` set (filtered_df df fs))
   \<and> map fst (tbl_growth_industry (main_body lib df fs)) =
       sorted_list_of_set (Industry ` set (filtered_df df fs))
   \<and> map fst (tbl_company_dist (main_body lib df fs)) =
       sorted_list_of_set ((\<lambda>r. (Company_Size r, Job_Title r)) ` set (filtered_df df fs))"
  by (simp add: main_twice main_body_fields keys_groupby_mean keys_groupby_sum
        keys_groupby_size group_keys_sorted_list)

theorem recomputation_deterministic_witness:
  "fst (main ieee_lib (snd (main ieee_lib w_ok None)) None) = fst (main ieee_lib w_ok None)
   \<and> map fst (tbl_salary_trends (main_body ieee_lib [row2, row1] fs_default)) =
       [(2020, ''A''), (2021, ''B'')]
   \<and> sorted_list_of_set ((\<lambda>r. (Year r, Job_Title r)) ` set (filtered_df [row2, row1] fs_default)) =
       [(2020, ''A''), (2021, ''B'')]"
proof -
  have t: "map fst (tbl_salary_trends (main_body ieee_lib [row2, row1] fs_default)) =
       [(2020, ''A''), (2021, ''B'')]"
    by (simp add: main_body_fields filtered_df_filter groupby_mean_alt group_keys_def
          fs_default_def row1_def row2_def)
  show ?thesis
    using recomputation_deterministic [where w = w_ok and ui = None and lib = ieee_lib
        and df = "[row2, row1]" and fs = fs_default] t by simp
qed

section \<open>The default widget state\<close>

lemma set_unique: "set (unique s) = set s"
  by (simp add: unique_def)

lemma series_min_Min: "series_min (x # xs) = Some (Min (set (x # xs)))"
  using Min.set_eq_fold [of x xs] by (simp add: series_min_def)

lemma series_max_Max: "series_max (x # xs) = Some (Max (set (x # xs)))"
  using Max.set_eq_fold [of x xs] by (simp add: series_max_def)

lemma default_filter_state_Nil: "default_filter_state [] = Inl ValueError"
  by (simp add: default_filter_state_def column_def series_min_def py_int_def)

lemma default_filter_state_Inr:
  assumes "df \<noteq> []"
  shows "default_filter_state df =
     Inr \<lparr>year_range = (Min (Year ` set df), Max (Year ` set df)),
          job_cats = unique (column Job_Title df),
          industries = unique (column Industry df)\<rparr>"
proof (cases df)
  case Nil
  with assms show ?thesis by simp
next
  case (Cons r rs)
  show ?thesis
    unfolding Cons default_filter_state_def column_def list.map
      series_min_Min series_max_Max py_int_def
    by simp
qed

lemma filtered_df_all:
  assumes "\<And>r. r \<in> set df \<Longrightarrow> fst (year_range fs) \<le> Year r \<and> Year r \<le> snd (year_range fs)"
    and "Job_Title ` set df \<subseteq> set (job_cats fs)"
    and "Industry ` set df \<subseteq> set (industries fs)"
  shows "filtered_df df fs = df"
  unfolding filtered_df_filter using assms by (auto simp: filter_id_conv)

text \<open>
  Claim C5.  When the widgets return their defaults (the slider the least and the
  greatest Year of the frame, the multiselects every distinct Job_Title and every
  distinct Industry of the frame), the filtered frame is the frame itself: the same
  rows, each once, in the same order.  (On a frame without rows the slider cannot be
  built: \<^verbatim>\<open>int(df['Year'].min())\<close> raises, and there is no default state.)
\<close>

theorem default_keeps_all:
  assumes "default_filter_state df = Inr fs"
  shows "filtered_df df fs = df"
proof -
  have ne: "df \<noteq> []"
    using assms by (auto simp: default_filter_state_Nil)
  have fs: "fs = \<lparr>year_range = (Min (Year ` set df), Max (Year ` set df)),
          job_cats = unique (column Job_Title df),
          industries = unique (column Industry df)\<rparr>"
    using assms default_filter_state_Inr [OF ne] by simp
  show ?thesis
  proof (rule filtered_df_all)
    fix r assume "r \<in> set df"
    then show "fst (year_range fs) \<le> Year r \<and> Year r \<le> snd (year_range fs)"
      by (simp add: fs)
  next
    show "Job_Title ` set df \<subseteq> set (job_cats fs)"
      by (simp add: fs set_unique column_def)
  next
    show "Industry ` set df \<subseteq> set (industries fs)"
      by (simp add: fs set_unique column_def)
  qed
qed

theorem default_keeps_all_witness:
  "default_filter_state [row2, row1] = Inr fs_default
   \<and> filtered_df [row2, row1] fs_default = [row2, row1]"
proof -
  have h: "default_filter_state [row2, row1] = Inr fs_default"
    by (simp add: default_filter_state_def column_def series_min_def series_max_def
          py_int_def unique_def fs_default_def row1_def row2_def)
  from default_keeps_all [OF h] h show ?thesis by simp
qed

section \<open>Monotonicity\<close>

lemma length_filter_mono:
  "(\<And>x. x \<in> set xs \<Longrightarrow> P x \<Longrightarrow> Q x) \<Longrightarrow> length (filter P xs) \<le> length (filter Q xs)"
  by (induction xs) auto

text \<open>
  Claim C6.  If a second widget state has a year range at least as wide as the first
  and selected lists that contain at least the values of the first (so in particular
  when only one of the three was widened and the other two are the same), every row
  of the first filtered frame is a row of the second, and the first has no more rows
  than the second.
\<close>

theorem filtered_df_mono:
  assumes "fst (year_range fs') \<le> fst (year_range fs)"
    and "snd (year_range fs) \<le> snd (year_range fs')"
    and "set (job_cats fs) \<subseteq> set (job_cats fs')"
    and "set (industries fs) \<subseteq> set (industries fs')"
  shows "set (filtered_df df fs) \<subseteq> set (filtered_df df fs')
     \<and> length (filtered_df df fs) \<le> length (filtered_df df fs')"
proof
  show "set (filtered_df df fs) \<subseteq> set (filtered_df df fs')"
    unfolding filtered_df_filter using assms by auto
  show "length (filtered_df df fs) \<le> length (filtered_df df fs')"
    unfolding filtered_df_filter using assms by (intro length_filter_mono) auto
qed

theorem filtered_df_mono_witness:
  "filtered_df [row1, row2] fs1 = [row1]
   \<and> filtered_df [row1, row2] fs_default = [row1, row2]
   \<and> set (filtered_df [row1, row2] fs1) \<subseteq> set (filtered_df [row1, row2] fs_default)
   \<and> length (filtered_df [row1, row2] fs1) \<le> length (filtered_df [row1, row2] fs_default)"
proof -
  have a: "fst (year_range fs_default) \<le> fst (year_range fs1)"
    and b: "snd (year_range fs1) \<le> snd (year_range fs_default)"
    and c: "set (job_cats fs1) \<subseteq> set (job_cats fs_default)"
    and d: "set (industries fs1) \<subseteq> set (industries fs_default)"
    by (simp_all add: fs1_def fs_default_def)
  have e: "filtered_df [row1, row2] fs1 = [row1]"
    "filtered_df [row1, row2] fs_default = [row1, row2]"
    by (simp_all add: filtered_df_filter fs1_def fs_default_def row1_def row2_def)
  from filtered_df_mono [OF a b c d, of "[row1, row2]"] e show ?thesis by simp
qed

section \<open>The KPIs\<close>










section \<open>The eight tables\<close>









section \<open>Selected values that do not occur in the frame\<close>

lemma filtered_df_cong:
  assumes "year_range fs' = year_range fs"
    and "set (job_cats fs') \<inter> Job_Title ` set df = set (job_cats fs) \<inter> Job_Title ` set df"
    and "set (industries fs') \<inter> Industry ` set df = set (industries fs) \<inter> Industry ` set df"
  shows "filtered_df df fs' = filtered_df df fs"
  unfolding filtered_df_filter
proof (rule filter_cong [OF refl])
  fix r assume r: "r \<in> set df"
  have "Job_Title r \<in> set (job_cats fs') \<longleftrightarrow> Job_Title r \<in> set (job_cats fs)"
    using assms(2) r by blast
  moreover have "Industry r \<in> set (industries fs') \<longleftrightarrow> Industry r \<in> set (industries fs)"
    using assms(3) r by blast
  ultimately show
    "((fst (year_range fs') \<le> Year r \<and> Year r \<le> snd (year_range fs'))
        \<and> Job_Title r \<in> set (job_cats fs') \<and> Industry r \<in> set (industries fs'))
     = ((fst (year_range fs) \<le> Year r \<and> Year r \<le> snd (year_range fs))
        \<and> Job_Title r \<in> set (job_cats fs) \<and> Industry r \<in> set (industries fs))"
    using assms(1) by simp
qed

lemma main_body_cong: "filtered_df df fs' = filtered_df df fs \<Longrightarrow> main_body lib df fs' = main_body lib df fs"
  by (simp add: main_body_def)

text \<open>
  Claim C9.  The filtered frame, and with it every KPI and every table, depends on
  the selected lists only through the selected values that occur in the frame: two
  widget states with the same year range whose job lists select the same Job_Title
  values of the frame and whose industry lists select the same Industry values of the
  frame give the same result.  In particular, adding to the selected job categories a
  string that is no Job_Title of the frame changes nothing, and likewise for a string
  that is no Industry of the frame added to the selected industries.
\<close>

theorem unobserved_values_ignored:
  "(year_range fs' = year_range fs
      \<and> set (job_cats fs') \<inter> Job_Title ` set df = set (job_cats fs) \<inter> Job_Title ` set df
      \<and> set (industries fs') \<inter> Industry ` set df = set (industries fs) \<inter> Industry ` set df
      \<longrightarrow> filtered_df df fs' = filtered_df df fs \<and> main_body lib df fs' = main_body lib df fs)
   \<and> (s \<notin> Job_Title ` set df \<longrightarrow>
        filtered_df df (fs\<lparr>job_cats := s # job_cats fs\<rparr>) = filtered_df df fs
      \<and> main_body lib df (fs\<lparr>job_cats := s # job_cats fs\<rparr>) = main_body lib df fs)
   \<and> (s \<notin> Industry ` set df \<longrightarrow>
        filtered_df df (fs\<lparr>industries := s # industries fs\<rparr>) = filtered_df df fs
      \<and> main_body lib df (fs\<lparr>industries := s # industries fs\<rparr>) = main_body lib df fs)"
proof (intro conjI impI)
  assume a: "year_range fs' = year_range fs
      \<and> set (job_cats fs') \<inter> Job_Title ` set df = set (job_cats fs) \<inter> Job_Title ` set df
      \<and> set (industries fs') \<inter> Industry ` set df = set (industries fs) \<inter> Industry ` set df"
  then show f: "filtered_df df fs' = filtered_df df fs"
    by (intro filtered_df_cong) simp_all
  then show "main_body lib df fs' = main_body lib df fs"
    by (rule main_body_cong)
next
  assume s: "s \<notin> Job_Title ` set df"
  then show f: "filtered_df df (fs\<lparr>job_cats := s # job_cats fs\<rparr>) = filtered_df df fs"
    by (intro filtered_df_cong) auto
  then show "main_body lib df (fs\<lparr>job_cats := s # job_cats fs\<rparr>) = main_body lib df fs"
    by (rule main_body_cong)
next
  assume s: "s \<notin> Industry ` set df"
  then show f: "filtered_df df (fs\<lparr>industries := s # industries fs\<rparr>) = filtered_df df fs"
    by (intro filtered_df_cong) auto
  then show "main_body lib df (fs\<lparr>industries := s # industries fs\<rparr>) = main_body lib df fs"
    by (rule main_body_cong)
qed

theorem unobserved_values_ignored_witness:
  "''C'' \<notin> Job_Title ` set [row1, row2]
   \<and> filtered_df [row1, row2] (fs1\<lparr>job_cats := ''C'' # job_cats fs1\<rparr>) =
       filtered_df [row1, row2] fs1
   \<and> main_body ieee_lib [row1, row2] (fs1\<lparr>job_cats := ''C'' # job_cats fs1\<rparr>) =
       main_body ieee_lib [row1, row2] fs1
   \<and> ''C'' \<notin> Industry ` set [row1, row2]
   \<and> main_body ieee_lib [row1, row2] (fs1\<lparr>industries := ''C'' # industries fs1\<rparr>) =
       main_body ieee_lib [row1, row2] fs1"
proof -
  have j: "''C'' \<notin> Job_Title ` set [row1, row2]"
    and i: "''C'' \<notin> Industry ` set [row1, row2]"
    by (simp_all add: row1_def row2_def)
  show ?thesis
    using unobserved_values_ignored [where fs' = fs1 and fs = fs1 and df = "[row1, row2]"
        and s = "''C''" and lib = ieee_lib] j i by blast
qed

section \<open>Only observed keys\<close>

lemma size_group_pos:
  "(k, n) \<in> set (groupby_size key df) \<Longrightarrow> 1 \<le> n"
proof -
  assume "(k, n) \<in> set (groupby_size key df)"
  then have k: "k \<in> key ` set df" and n: "n = length (filter (\<lambda>r. key r = k) df)"
    by (auto simp: groupby_size_alt set_group_keys)
  from k obtain r where "r \<in> set df" "key r = k" by auto
  then have "filter (\<lambda>r. key r = k) df \<noteq> []"
    by (auto simp: filter_empty_conv)
  with n show ?thesis by (cases "filter (\<lambda>r. key r = k) df") simp_all
qed

lemma set_keys_groupby_mean: "fst ` set (groupby_mean lib key c df) = key ` set df"
  using keys_groupby_mean [of lib key c df] set_group_keys [of key df]
  by (metis set_map)

lemma set_keys_groupby_sum: "fst ` set (groupby_sum key c df) = key ` set df"
  using keys_groupby_sum [of key c df] set_group_keys [of key df]
  by (metis set_map)

lemma set_keys_groupby_size: "fst ` set (groupby_size key df) = key ` set df"
  using keys_groupby_size [of key df] set_group_keys [of key df]
  by (metis set_map)

text \<open>
  Claim C10.  The keys of each of the eight tables are exactly the key tuples that
  occur in a row of the filtered frame, so no table has an entry for a combination
  that no filtered row shows; and every count in the four count tables is at least 1.
\<close>

theorem only_observed_keys:
  "fst ` set (tbl_salary_trends (main_body lib df fs)) =
     (\<lambda>r. (Year r, Job_Title r)) ` set (filtered_df df fs)
   \<and> fst ` set (tbl_salary_exp (main_body lib df fs)) =
     (\<lambda>r. (Experience_Level r, Job_Title r)) ` set (filtered_df df fs)
   \<and> fst ` set (tbl_ai_adoption (main_body lib df fs)) =
     (\<lambda>r. (Industry r, AI_Adoption_Level r)) ` set (filtered_df df fs)
   \<and> fst ` set (tbl_skill_complex (main_body lib df fs)) =
     (\<lambda>r. (Job_Title r, Skill_Complexity r)) ` set (filtered_df df fs)
   \<and> fst ` set (tbl_location_jobs (main_body lib df fs)) =
     (\<lambda>r. (Location r, Job_Title r)) ` set (filtered_df df fs)
   \<and> fst ` set (tbl_remote_dist (main_body lib df fs)) =
     (\<lambda>r. (Job_Title r, Remote_Work r)) ` set (filtered_df df fs)
   \<and> fst ` set (tbl_growth_industry (main_body lib df fs)) =
     Industry ` set (filtered_df df fs)
   \<and> fst ` set (tbl_company_dist (main_body lib df fs)) =
     (\<lambda>r. (Company_Size r, Job_Title r)) ` set (filtered_df df fs)
   \<and> (\<forall>(k, n) \<in> set (tbl_ai_adoption (main_body lib df fs)). 1 \<le> n)
   \<and> (\<forall>(k, n) \<in> set (tbl_skill_complex (main_body lib df fs)). 1 \<le> n)
   \<and> (\<forall>(k, n) \<in> set (tbl_remote_dist (main_body lib df fs)). 1 \<le> n)
   \<and> (\<forall>(k, n) \<in> set (tbl_company_dist (main_body lib df fs)). 1 \<le> n)"
  by (auto simp add: main_body_fields set_keys_groupby_mean set_keys_groupby_sum
        set_keys_groupby_size dest: size_group_pos)

theorem only_observed_keys_witness:
  "tbl_ai_adoption (main_body ieee_lib [row2, row1, row1] fs_default) =
     [((''X'', ''High''), 2), ((''Y'', ''Low''), 1)]
   \<and> fst ` set (tbl_ai_adoption (main_body ieee_lib [row2, row1, row1] fs_default)) =
       (\<lambda>r. (Industry r, AI_Adoption_Level r)) ` set (filtered_df [row2, row1, row1] fs_default)
   \<and> fst ` set (tbl_company_dist (main_body ieee_lib [row2, row1, row1] fs_default)) =
       (\<lambda>r. (Company_Size r, Job_Title r)) ` set (filtered_df [row2, row1, row1] fs_default)"
proof -
  have t: "tbl_ai_adoption (main_body ieee_lib [row2, row1, row1] fs_default) =
     [((''X'', ''High''), 2), ((''Y'', ''Low''), 1)]"
    by (simp add: main_body_fields filtered_df_filter groupby_size_alt group_keys_def
          fs_default_def row1_def row2_def)
  show ?thesis
    using only_observed_keys [where lib = ieee_lib and df = "[row2, row1, row1]"
        and fs = fs_default] t by simp
qed

end
